theory Spec2Isabelle
  imports Complex_Main "HOL-Library.Multiset"
begin

section \<open>Strings and the JavaScript string operations used by server.js\<close>

text \<open>
  JavaScript strings are modelled as Isabelle strings. The model is exact on ASCII text:
  \<open>toLowerCase\<close> maps \<open>A-Z\<close> to \<open>a-z\<close>, the class \<open>\w\<close> is \<open>[A-Za-z0-9_]\<close>, and the
  class \<open>\s\<close> (also what \<open>trim\<close> strips) is tab, line feed, vertical tab, form feed,
  carriage return and space. Every other character is left alone by \<open>toLowerCase\<close> and
  is neither a word character nor white space.
\<close>

definition toLowerCase_char :: "char \<Rightarrow> char" where
  "toLowerCase_char c =
     (let n = (of_char c :: nat) in if 65 \<le> n \<and> n \<le> 90 then char_of (n + 32) else c)"

definition toLowerCase :: "string \<Rightarrow> string" where
  "toLowerCase text = map toLowerCase_char text"

definition isWordChar :: "char \<Rightarrow> bool" where
  "isWordChar c =
     (let n = (of_char c :: nat) in
        (48 \<le> n \<and> n \<le> 57) \<or> (65 \<le> n \<and> n \<le> 90) \<or> n = 95 \<or> (97 \<le> n \<and> n \<le> 122))"

definition isSpace :: "char \<Rightarrow> bool" where
  "isSpace c = (let n = (of_char c :: nat) in (9 \<le> n \<and> n \<le> 13) \<or> n = 32)"

definition isSentenceEnd :: "char \<Rightarrow> bool" where
  "isSentenceEnd c = (c = CHR ''.'' \<or> c = CHR ''!'' \<or> c = CHR ''?'')"

text \<open>
  \<open>text.split(/[class]+/)\<close>: the pieces between maximal runs of separator characters.
  As in JavaScript a separator run at the start or at the end leaves an empty piece
  there, and the empty string splits into one empty piece. The flag says whether the
  previous character was a separator (the run is still going on).
\<close>

fun split_aux :: "(char \<Rightarrow> bool) \<Rightarrow> bool \<Rightarrow> string \<Rightarrow> string list" where
  "split_aux sep inrun [] = [[]]"
| "split_aux sep inrun (c # cs) =
     (if sep c then (if inrun then split_aux sep True cs else [] # split_aux sep True cs)
      else (case split_aux sep False cs of
              [] \<Rightarrow> [[c]]
            | s # ss \<Rightarrow> (c # s) # ss))"

definition split_regex :: "(char \<Rightarrow> bool) \<Rightarrow> string \<Rightarrow> string list" where
  "split_regex sep text = split_aux sep False text"

text \<open>\<open>s.trim()\<close>: white space removed at both ends.\<close>

definition trim :: "string \<Rightarrow> string" where
  "trim s = rev (dropWhile isSpace (rev (dropWhile isSpace s)))"

text \<open>\<open>hay.includes(needle)\<close>: the needle occurs as a contiguous substring.\<close>

fun startsWith :: "string \<Rightarrow> string \<Rightarrow> bool" where
  "startsWith hay [] = True"
| "startsWith [] (n # ns) = False"
| "startsWith (h # hs) (n # ns) = (h = n \<and> startsWith hs ns)"

fun includes_str :: "string \<Rightarrow> string \<Rightarrow> bool" where
  "includes_str [] needle = (needle = [])"
| "includes_str (h # hs) needle = (startsWith (h # hs) needle \<or> includes_str hs needle)"

text \<open>
  \<open>new Set(list)\<close>: the distinct elements in insertion order; \<open>has\<close> and \<open>size\<close>.
\<close>

definition Set_add :: "'a list \<Rightarrow> 'a \<Rightarrow> 'a list" where
  "Set_add s x = (if x \<in> set s then s else s @ [x])"

definition Set_new :: "'a list \<Rightarrow> 'a list" where
  "Set_new xs = foldl Set_add [] xs"

definition Set_has :: "'a list \<Rightarrow> 'a \<Rightarrow> bool" where
  "Set_has s x = (x \<in> set s)"

definition Set_size :: "'a list \<Rightarrow> nat" where
  "Set_size s = length s"

section \<open>Tokenizer and relevance scorer (server.js, tokenize and computeSimilarity)\<close>

text \<open>
  \<open>text.toLowerCase().replace(/[^\w\s]/g, ' ').split(/\s+/).filter(t => t.length > 2)\<close>
\<close>

definition replace_nonword :: "string \<Rightarrow> string" where
  "replace_nonword text = map (\<lambda>c. if isWordChar c \<or> isSpace c then c else CHR '' '') text"

definition tokenize :: "string \<Rightarrow> string list" where
  "tokenize text =
     filter (\<lambda>t. length t > 2) (split_regex isSpace (replace_nonword (toLowerCase text)))"

text \<open>The loop \<open>for (const token of contentTokens) if (queryTokens.has(token)) matches++\<close>.\<close>

fun count_matches :: "string list \<Rightarrow> string list \<Rightarrow> nat \<Rightarrow> nat" where
  "count_matches queryTokens [] matches = matches"
| "count_matches queryTokens (token # rest) matches =
     count_matches queryTokens rest (if Set_has queryTokens token then matches + 1 else matches)"

text \<open>
  The score is computed over the real numbers; the source computes the same expression
  in double precision, so the model does not show rounding.
\<close>

definition computeSimilarity :: "string \<Rightarrow> string \<Rightarrow> real" where
  "computeSimilarity query content =
     (let queryTokens = Set_new (tokenize query);
          contentTokens = tokenize content
      in if Set_size queryTokens = 0 \<or> length contentTokens = 0 then 0
         else
           (let matches = count_matches queryTokens contentTokens 0;
                baseScore = real matches / sqrt (real (Set_size queryTokens * length contentTokens));
                exactBoost = (if includes_str (toLowerCase content) (toLowerCase query) then 3 / 10 else 0)
            in min 1 (baseScore + exactBoost)))"

section \<open>Fact extractor (server.js, extractFacts)\<close>

text \<open>
  Each preference pattern is a fixed prefix followed by one of several alternatives,
  searched anywhere in the sentence and without regard to case (the flag \<open>i\<close>): the
  sentence is lowercased and searched for the lowercase prefix and alternative.
\<close>

type_synonym pattern = "string \<times> string list"

definition preferencePatterns :: "pattern list" where
  "preferencePatterns =
     [(''i '', [''prefer'', ''like'', ''love'', ''want'', ''need'', ''use'']),
      (''my '', [''favorite'', ''preferred'', ''default'']),
      (''i '', [''always'', ''never'', ''usually'', ''often'']),
      (''remember '', [''that'', ''to''])]"

fun regex_test :: "pattern \<Rightarrow> string \<Rightarrow> bool" where
  "regex_test (pre, alts) s = list_ex (\<lambda>alt. includes_str (toLowerCase s) (pre @ alt)) alts"

text \<open>
  The inner loop over the patterns: at the first pattern that matches, the trimmed
  sentence is pushed and the loop is left (\<open>break\<close>).
\<close>

fun test_patterns :: "pattern list \<Rightarrow> string \<Rightarrow> string list \<Rightarrow> string list" where
  "test_patterns [] trimmed facts = facts"
| "test_patterns (p # ps) trimmed facts =
     (if regex_test p trimmed then facts @ [trimmed] else test_patterns ps trimmed facts)"

text \<open>The outer loop over the sentences.\<close>

fun scan_sentences :: "string list \<Rightarrow> string list \<Rightarrow> string list" where
  "scan_sentences [] facts = facts"
| "scan_sentences (sentence # rest) facts =
     scan_sentences rest (test_patterns preferencePatterns (trim sentence) facts)"

definition extractFacts :: "string \<Rightarrow> string \<Rightarrow> string list" where
  "extractFacts content containerTag =
     (let sentences = filter (\<lambda>s. length (trim s) > 10) (split_regex isSentenceEnd content)
      in scan_sentences sentences [])"

section \<open>The store (server.js, the two tables)\<close>

text \<open>
  A table is the list of its rows in insertion order. Timestamps (ISO strings in the
  source, compared as text by \<open>ORDER BY\<close>) are modelled as integers, the milliseconds
  they denote. The metadata column holds the JSON text the source stores and is never
  interpreted. The primary keys are what the insertions below check.
\<close>

record memory_row =
  m_id :: string
  m_container_tag :: string
  m_content :: string
  m_metadata :: "string option"
  m_custom_id :: "string option"
  m_created_at :: int
  m_updated_at :: int
  m_forgotten_at :: "int option"

record fact_row =
  f_id :: string
  f_container_tag :: string
  f_fact :: string
  f_fact_type :: string
  f_created_at :: int
  f_updated_at :: int

record db =
  memories :: "memory_row list"
  profile_facts :: "fact_row list"

text \<open>A handler answers with a JSON body (status 200) or with a status and a message.\<close>

datatype 'a response = Json 'a | Error nat string

text \<open>
  Optional string fields of a request body: \<open>None\<close> is an absent field. \<open>a || b\<close> takes
  \<open>b\<close> when \<open>a\<close> is absent or the empty string; \<open>containerTags?.[0]\<close> is the first tag
  when there is one.
\<close>

definition js_truthy :: "string option \<Rightarrow> bool" where
  "js_truthy a = (case a of None \<Rightarrow> False | Some s \<Rightarrow> s \<noteq> [])"

definition js_or :: "string option \<Rightarrow> string option \<Rightarrow> string option" where
  "js_or a b = (if js_truthy a then a else b)"

definition first_tag :: "string list option \<Rightarrow> string option" where
  "first_tag containerTags =
     (case containerTags of None \<Rightarrow> None | Some [] \<Rightarrow> None | Some (t # ts) \<Rightarrow> Some t)"

definition resolve_tag :: "string option \<Rightarrow> string list option \<Rightarrow> string" where
  "resolve_tag containerTag containerTags =
     (case js_or (js_or containerTag (first_tag containerTags)) (Some ''default'') of
        None \<Rightarrow> ''default''
      | Some t \<Rightarrow> t)"

text \<open>
  \<open>ORDER BY created_at DESC\<close>: rows with the same timestamp keep their storage order
  (SQLite leaves their order open). \<open>LIMIT n\<close> with a negative \<open>n\<close> is no limit;
  \<open>OFFSET n\<close> with a negative \<open>n\<close> is no offset.
\<close>

definition order_by_created_at_desc :: "memory_row list \<Rightarrow> memory_row list" where
  "order_by_created_at_desc rows = sort_key (\<lambda>m. - m_created_at m) rows"

definition sql_limit :: "int \<Rightarrow> 'a list \<Rightarrow> 'a list" where
  "sql_limit n rows = (if n < 0 then rows else take (nat n) rows)"

definition sql_offset :: "int \<Rightarrow> 'a list \<Rightarrow> 'a list" where
  "sql_offset n rows = drop (nat n) rows"

text \<open>
  \<open>SELECT ... FROM memories WHERE container_tag IN (tags) AND forgotten_at IS NULL
  ORDER BY created_at DESC\<close>
\<close>

definition select_active :: "db \<Rightarrow> string list \<Rightarrow> memory_row list" where
  "select_active d tags =
     order_by_created_at_desc
       (filter (\<lambda>m. m_container_tag m \<in> set tags \<and> m_forgotten_at m = None) (memories d))"

text \<open>
  \<open>xs.slice(0, end)\<close> for an integer \<open>end\<close>: a negative \<open>end\<close> counts from the end of
  the array.
\<close>

definition js_slice :: "'a list \<Rightarrow> int \<Rightarrow> 'a list" where
  "js_slice xs end = (if end < 0 then take (nat (int (length xs) + end)) xs else take (nat end) xs)"

text \<open>
  \<open>xs.sort((a, b) => b.similarity - a.similarity)\<close>: a stable sort, highest score first.
\<close>

definition sort_by_similarity_desc :: "('a \<Rightarrow> real) \<Rightarrow> 'a list \<Rightarrow> 'a list" where
  "sort_by_similarity_desc similarity xs = sort_key (\<lambda>r. - similarity r) xs"

section \<open>POST /api/v1/search/memories\<close>

record search_request =
  sq_q :: "string option"
  sq_query :: "string option"
  sq_containerTag :: "string option"
  sq_containerTags :: "string list option"
  sq_limit :: "int option"

record search_result =
  r_id :: string
  r_memory :: string
  r_similarity :: real
  r_metadata :: "string option"
  r_createdAt :: int
  r_updatedAt :: int

record search_response =
  results :: "search_result list"
  timing :: int
  total :: nat

definition to_result :: "string \<Rightarrow> memory_row \<Rightarrow> search_result" where
  "to_result searchQuery m =
     \<lparr>r_id = m_id m, r_memory = m_content m,
      r_similarity = computeSimilarity searchQuery (m_content m),
      r_metadata = m_metadata m, r_createdAt = m_created_at m, r_updatedAt = m_updated_at m\<rparr>"

text \<open>
  The rows the search scores: \<open>stmt.all(tag)\<close> with \<open>LIMIT 1000\<close>.
\<close>

definition search_working_set :: "db \<Rightarrow> string \<Rightarrow> memory_row list" where
  "search_working_set d tag = sql_limit 1000 (select_active d [tag])"

text \<open>
  \<open>elapsed\<close> is the time the handler measures, \<open>Date.now() - startTime\<close>. The limit is an
  integer, 10 when the body has none.
\<close>

definition search :: "db \<Rightarrow> search_request \<Rightarrow> int \<Rightarrow> search_response" where
  "search d req elapsed =
     (let searchQuery = js_or (sq_q req) (sq_query req);
          tag = resolve_tag (sq_containerTag req) (sq_containerTags req);
          limit = (case sq_limit req of None \<Rightarrow> 10 | Some l \<Rightarrow> l)
      in case searchQuery of
           None \<Rightarrow> \<lparr>results = [], timing = 0, total = 0\<rparr>
         | Some sq \<Rightarrow>
             if sq = [] then \<lparr>results = [], timing = 0, total = 0\<rparr>
             else
               (let memories = search_working_set d tag;
                    results =
                      js_slice
                        (sort_by_similarity_desc r_similarity
                           (filter (\<lambda>r. r_similarity r > 5 / 100) (map (to_result sq) memories)))
                        limit
                in \<lparr>results = results, timing = elapsed, total = length results\<rparr>))"

section \<open>GET /api/v1/profile, the query branch\<close>

text \<open>
  The value of \<open>parseFloat(threshold)\<close>: a finite number, an infinity, or \<open>NaN\<close> when the
  text is not a number. \<open>similarity > t\<close> and \<open>t1 <= t2\<close> are JavaScript's comparisons:
  false whenever an operand is \<open>NaN\<close>.
\<close>

datatype js_number = NaN | NegInfinity | Finite real | PosInfinity

fun js_gt :: "real \<Rightarrow> js_number \<Rightarrow> bool" where
  "js_gt x NaN = False"
| "js_gt x NegInfinity = True"
| "js_gt x (Finite t) = (x > t)"
| "js_gt x PosInfinity = False"

fun js_le :: "js_number \<Rightarrow> js_number \<Rightarrow> bool" where
  "js_le NaN t2 = False"
| "js_le t1 NaN = False"
| "js_le NegInfinity t2 = True"
| "js_le (Finite a) NegInfinity = False"
| "js_le (Finite a) (Finite b) = (a \<le> b)"
| "js_le (Finite a) PosInfinity = True"
| "js_le PosInfinity NegInfinity = False"
| "js_le PosInfinity (Finite b) = False"
| "js_le PosInfinity PosInfinity = True"

record profile_result =
  p_memory :: string
  p_similarity :: real
  p_updatedAt :: int

record profile_search_response =
  ps_results :: "profile_result list"
  ps_timing :: int
  ps_total :: nat

definition to_profile_result :: "string \<Rightarrow> memory_row \<Rightarrow> profile_result" where
  "to_profile_result q m =
     \<lparr>p_memory = m_content m, p_similarity = computeSimilarity q (m_content m),
      p_updatedAt = m_updated_at m\<rparr>"

text \<open>
  The field \<open>searchResults\<close> of the response: \<open>None\<close> is \<open>undefined\<close>, sent when there is
  no query or nothing scores above the threshold. The tag is \<open>containerTag || 'default'\<close>.
\<close>

definition profile_search ::
  "db \<Rightarrow> string option \<Rightarrow> string option \<Rightarrow> js_number \<Rightarrow> profile_search_response option" where
  "profile_search d containerTag q threshold =
     (let tag = (case js_or containerTag (Some ''default'') of None \<Rightarrow> ''default'' | Some t \<Rightarrow> t);
          searchResults =
            (if js_truthy q then
               (case q of
                  None \<Rightarrow> \<lparr>ps_results = [], ps_timing = 0, ps_total = 0\<rparr>
                | Some qs \<Rightarrow>
                    (let memories = sql_limit 500 (select_active d [tag]);
                         results =
                           js_slice
                             (sort_by_similarity_desc p_similarity
                                (filter (\<lambda>r. js_gt (p_similarity r) threshold)
                                   (map (to_profile_result qs) memories)))
                             10
                     in \<lparr>ps_results = results, ps_timing = 0, ps_total = length results\<rparr>))
             else \<lparr>ps_results = [], ps_timing = 0, ps_total = 0\<rparr>)
      in if ps_total searchResults > 0 then Some searchResults else None)"

text \<open>How many search results a profile response carries.\<close>

definition profile_result_count :: "profile_search_response option \<Rightarrow> nat" where
  "profile_result_count r = (case r of None \<Rightarrow> 0 | Some sr \<Rightarrow> length (ps_results sr))"

section \<open>POST /api/v1/memories/forget\<close>

text \<open>
  \<open>now\<close> is the clock, \<open>new Date().toISOString()\<close>. The container tag is bound as given.
\<close>

record forget_request =
  fg_containerTag :: string
  fg_id :: "string option"
  fg_content :: "string option"

record forget_response =
  fr_id :: string
  forgotten :: bool

text \<open>\<open>UPDATE memories SET forgotten_at = ? WHERE id = ? AND container_tag = ?\<close>\<close>

definition update_forget_by_id :: "memory_row list \<Rightarrow> int \<Rightarrow> string \<Rightarrow> string \<Rightarrow> memory_row list" where
  "update_forget_by_id rows now i tag =
     map (\<lambda>m. if m_id m = i \<and> m_container_tag m = tag then m\<lparr>m_forgotten_at := Some now\<rparr> else m) rows"

text \<open>
  \<open>UPDATE memories SET forgotten_at = ? WHERE content = ? AND container_tag = ? AND
  forgotten_at IS NULL\<close>, and \<open>result.changes\<close>, the number of rows it updated.
\<close>

definition matches_content :: "string \<Rightarrow> string \<Rightarrow> memory_row \<Rightarrow> bool" where
  "matches_content c tag m = (m_content m = c \<and> m_container_tag m = tag \<and> m_forgotten_at m = None)"

definition update_forget_by_content :: "memory_row list \<Rightarrow> int \<Rightarrow> string \<Rightarrow> string \<Rightarrow> memory_row list" where
  "update_forget_by_content rows now c tag =
     map (\<lambda>m. if matches_content c tag m then m\<lparr>m_forgotten_at := Some now\<rparr> else m) rows"

definition forget :: "db \<Rightarrow> forget_request \<Rightarrow> int \<Rightarrow> db \<times> forget_response response" where
  "forget d req now =
     (if js_truthy (fg_id req) then
        (case fg_id req of
           None \<Rightarrow> (d, Error 400 ''Either id or content is required'')
         | Some i \<Rightarrow>
             (d\<lparr>memories := update_forget_by_id (memories d) now i (fg_containerTag req)\<rparr>,
              Json \<lparr>fr_id = i, forgotten = True\<rparr>))
      else if js_truthy (fg_content req) then
        (case fg_content req of
           None \<Rightarrow> (d, Error 400 ''Either id or content is required'')
         | Some c \<Rightarrow>
             (let changes = length (filter (matches_content c (fg_containerTag req)) (memories d))
              in (d\<lparr>memories := update_forget_by_content (memories d) now c (fg_containerTag req)\<rparr>,
                  Json \<lparr>fr_id = ''content-match'', forgotten = (changes > 0)\<rparr>)))
      else (d, Error 400 ''Either id or content is required''))"

section \<open>POST /api/v1/documents/list\<close>

record list_request =
  lq_containerTags :: "string list option"
  lq_limit :: "int option"
  lq_page :: "int option"

record memory_summary =
  s_id :: string
  s_content :: string
  s_createdAt :: int
  s_updatedAt :: int

text \<open>
  \<open>totalPages\<close> is \<open>Math.ceil(total / limit)\<close>; with a limit of zero the quotient is not
  a finite number and the JSON body carries \<open>null\<close>, here \<open>None\<close>.
\<close>

record list_response =
  l_memories :: "memory_summary list"
  l_page :: int
  l_limit :: int
  l_total :: nat
  l_totalPages :: "int option"

definition to_summary :: "memory_row \<Rightarrow> memory_summary" where
  "to_summary m =
     \<lparr>s_id = m_id m, s_content = m_content m, s_createdAt = m_created_at m,
      s_updatedAt = m_updated_at m\<rparr>"

definition list_documents :: "db \<Rightarrow> list_request \<Rightarrow> list_response" where
  "list_documents d req =
     (let limit = (case lq_limit req of None \<Rightarrow> 100 | Some l \<Rightarrow> l);
          page = (case lq_page req of None \<Rightarrow> 1 | Some p \<Rightarrow> p);
          tags = (case lq_containerTags req of None \<Rightarrow> [''default''] | Some ts \<Rightarrow> ts);
          offset = (page - 1) * limit;
          rows = sql_limit limit (sql_offset offset (select_active d tags));
          total = length (filter (\<lambda>m. m_container_tag m \<in> set tags \<and> m_forgotten_at m = None)
                            (memories d))
      in \<lparr>l_memories = map to_summary rows, l_page = page, l_limit = limit, l_total = total,
          l_totalPages = (if limit = 0 then None
                          else Some \<lceil>real total / real_of_int limit\<rceil>)\<rparr>)"

section \<open>POST /api/v1/documents/deleteBulk\<close>

text \<open>
  The field \<open>ids\<close> of the body as a JavaScript value. The elements of an array are
  strings, as the client sends them (\<open>ids: string[]\<close>).
\<close>

datatype ids_value =
    IdsUndefined
  | IdsNull
  | IdsBoolean bool
  | IdsNumber int
  | IdsString string
  | IdsObject
  | IdsArray "string list"

text \<open>\<open>!ids\<close>: an array, also the empty one, and an object are never falsy.\<close>

fun ids_not :: "ids_value \<Rightarrow> bool" where
  "ids_not IdsUndefined = True"
| "ids_not IdsNull = True"
| "ids_not (IdsBoolean b) = (\<not> b)"
| "ids_not (IdsNumber n) = (n = 0)"
| "ids_not (IdsString s) = (s = [])"
| "ids_not IdsObject = False"
| "ids_not (IdsArray xs) = False"

fun isArray :: "ids_value \<Rightarrow> bool" where
  "isArray (IdsArray xs) = True"
| "isArray v = False"

record delete_response =
  deleted :: nat

text \<open>
  \<open>DELETE FROM memories WHERE id IN (...)\<close> and \<open>result.changes\<close>, the number of rows
  it removed. With no id the list \<open>IN ()\<close> is empty, which SQLite accepts and no row
  satisfies.
\<close>

definition deleteBulk :: "db \<Rightarrow> ids_value \<Rightarrow> db \<times> delete_response response" where
  "deleteBulk d ids =
     (if ids_not ids \<or> \<not> isArray ids then (d, Error 400 ''ids array is required'')
      else
        (case ids of
           IdsArray xs \<Rightarrow>
             (let changes = length (filter (\<lambda>m. m_id m \<in> set xs) (memories d))
              in (d\<lparr>memories := filter (\<lambda>m. m_id m \<notin> set xs) (memories d)\<rparr>,
                  Json \<lparr>deleted = changes\<rparr>))
         | _ \<Rightarrow> (d, Error 400 ''ids array is required'')))"

section \<open>POST /api/v1/profile/promote\<close>

record promote_response =
  promoted :: bool

text \<open>
  \<open>UPDATE profile_facts SET fact_type = 'static', updated_at = ? WHERE container_tag = ?
  AND fact = ?\<close>; \<open>result.changes\<close> counts the rows the \<open>WHERE\<close> clause selects, whatever
  their type was.
\<close>

definition matches_fact :: "string \<Rightarrow> string \<Rightarrow> fact_row \<Rightarrow> bool" where
  "matches_fact containerTag fact_text f = (f_container_tag f = containerTag \<and> f_fact f = fact_text)"

definition promote :: "db \<Rightarrow> string \<Rightarrow> string \<Rightarrow> int \<Rightarrow> db \<times> promote_response response" where
  "promote d containerTag fact_text now =
     (let changes = length (filter (matches_fact containerTag fact_text) (profile_facts d))
      in (d\<lparr>profile_facts :=
              map (\<lambda>f. if matches_fact containerTag fact_text f
                        then f\<lparr>f_fact_type := ''static'', f_updated_at := now\<rparr> else f)
                (profile_facts d)\<rparr>,
          Json \<lparr>promoted = (changes > 0)\<rparr>))"

section \<open>GET /api/v1/stats\<close>

record stats_response =
  st_memories :: nat
  st_facts :: nat
  st_containers :: "string list"

definition stats :: "db \<Rightarrow> stats_response" where
  "stats d =
     \<lparr>st_memories = length (filter (\<lambda>m. m_forgotten_at m = None) (memories d)),
      st_facts = length (profile_facts d),
      st_containers = Set_new (map m_container_tag (memories d))\<rparr>"

section \<open>DELETE /api/v1/container/:tag\<close>

record wipe_response =
  wiped :: bool
  w_containerTag :: string

definition wipe :: "db \<Rightarrow> string \<Rightarrow> db \<times> wipe_response response" where
  "wipe d tag =
     (d\<lparr>memories := filter (\<lambda>m. m_container_tag m \<noteq> tag) (memories d),
        profile_facts := filter (\<lambda>f. f_container_tag f \<noteq> tag) (profile_facts d)\<rparr>,
      Json \<lparr>wiped = True, w_containerTag = tag\<rparr>)"

section \<open>POST /api/v1/add\<close>

text \<open>
  \<open>gen\<close> is the identifier generator: \<open>gen 0\<close> is the memory's id and \<open>gen (k + 1)\<close> the
  id of the fact number \<open>k\<close>. An insertion whose id is already in its table violates the
  primary key: the statement throws and the handler answers 500, with the rows written
  before still in place. The metadata is the JSON text of the body's field.
\<close>

record add_request =
  a_content :: "string option"
  a_containerTag :: "string option"
  a_containerTags :: "string list option"
  a_metadata :: "string option"
  a_customId :: "string option"

record add_response =
  a_id :: string
  created :: bool

fun insert_facts ::
  "fact_row list \<Rightarrow> string \<Rightarrow> string list \<Rightarrow> (nat \<Rightarrow> string) \<Rightarrow> nat \<Rightarrow> int \<Rightarrow> fact_row list \<times> bool" where
  "insert_facts rows tag [] gen k now = (rows, True)"
| "insert_facts rows tag (fact_text # rest) gen k now =
     (if gen k \<in> set (map f_id rows) then (rows, False)
      else insert_facts
             (rows @ [\<lparr>f_id = gen k, f_container_tag = tag, f_fact = fact_text,
                       f_fact_type = ''dynamic'', f_created_at = now, f_updated_at = now\<rparr>])
             tag rest gen (Suc k) now)"

definition add :: "db \<Rightarrow> add_request \<Rightarrow> (nat \<Rightarrow> string) \<Rightarrow> int \<Rightarrow> db \<times> add_response response" where
  "add d req gen now =
     (let tag = resolve_tag (a_containerTag req) (a_containerTags req)
      in case a_content req of
           None \<Rightarrow> (d, Error 400 ''Content is required'')
         | Some c \<Rightarrow>
             if c = [] then (d, Error 400 ''Content is required'')
             else if gen 0 \<in> set (map m_id (memories d))
             then (d, Error 500 ''UNIQUE constraint failed: memories.id'')
             else
               (let row = \<lparr>m_id = gen 0, m_container_tag = tag, m_content = c,
                           m_metadata = a_metadata req,
                           m_custom_id = js_or (a_customId req) None,
                           m_created_at = now, m_updated_at = now, m_forgotten_at = None\<rparr>;
                    d1 = d\<lparr>memories := memories d @ [row]\<rparr>;
                    inserted = insert_facts (profile_facts d1) tag (extractFacts c tag) gen 1 now;
                    d2 = d1\<lparr>profile_facts := fst inserted\<rparr>
                in if snd inserted then (d2, Json \<lparr>a_id = gen 0, created = True\<rparr>)
                   else (d2, Error 500 ''UNIQUE constraint failed: profile_facts.id'')))"

text \<open>The invariant the primary key of \<open>memories\<close> keeps.\<close>

definition ids_distinct :: "db \<Rightarrow> bool" where
  "ids_distinct d = distinct (map m_id (memories d))"

text \<open>A response with status 400, the way a validation error is surfaced.\<close>

definition is_validation_error :: "'a response \<Rightarrow> bool" where
  "is_validation_error r = (case r of Json body \<Rightarrow> False | Error status msg \<Rightarrow> status = 400)"

section \<open>A small store for the examples\<close>

text \<open>
  Two memories in the container \<open>work\<close>, one in \<open>home\<close>, and the dynamic fact of the
  spec's scenario.
\<close>

definition memory_a :: memory_row where
  "memory_a =
     \<lparr>m_id = ''a'', m_container_tag = ''work'', m_content = ''tea and milk rice'',
      m_metadata = None, m_custom_id = None, m_created_at = 1, m_updated_at = 1,
      m_forgotten_at = None\<rparr>"

definition memory_b :: memory_row where
  "memory_b =
     \<lparr>m_id = ''b'', m_container_tag = ''work'', m_content = ''tea'',
      m_metadata = None, m_custom_id = None, m_created_at = 2, m_updated_at = 2,
      m_forgotten_at = None\<rparr>"

definition memory_c :: memory_row where
  "memory_c =
     \<lparr>m_id = ''c'', m_container_tag = ''home'', m_content = ''tea'',
      m_metadata = None, m_custom_id = None, m_created_at = 3, m_updated_at = 3,
      m_forgotten_at = None\<rparr>"

definition fact_tea :: fact_row where
  "fact_tea =
     \<lparr>f_id = ''f'', f_container_tag = ''work'',
      f_fact = ''I always drink green tea in the morning'', f_fact_type = ''dynamic'',
      f_created_at = 1, f_updated_at = 1\<rparr>"

definition example_db :: db where
  "example_db = \<lparr>memories = [memory_a, memory_b, memory_c], profile_facts = [fact_tea]\<rparr>"

definition empty_db :: db where
  "empty_db = \<lparr>memories = [], profile_facts = []\<rparr>"

text \<open>A search for \<open>tea\<close> in the container \<open>work\<close> with the given limit.\<close>

definition tea_search :: "int option \<Rightarrow> search_request" where
  "tea_search limit =
     \<lparr>sq_q = Some ''tea'', sq_query = None, sq_containerTag = Some ''work'',
      sq_containerTags = None, sq_limit = limit\<rparr>"

text \<open>A request that creates the memory \<open>tea\<close> in the container \<open>home\<close>, and the row it makes.\<close>

definition home_add :: add_request where
  "home_add = \<lparr>a_content = Some ''tea'', a_containerTag = Some ''home'', a_containerTags = None,
      a_metadata = None, a_customId = None\<rparr>"

definition memory_n :: memory_row where
  "memory_n =
     \<lparr>m_id = ''n'', m_container_tag = ''home'', m_content = ''tea'',
      m_metadata = None, m_custom_id = None, m_created_at = 9, m_updated_at = 9,
      m_forgotten_at = None\<rparr>"

section \<open>Properties of the string operations\<close>

lemma startsWith_iff: "startsWith hay needle \<longleftrightarrow> (\<exists>ss. hay = needle @ ss)"
  by (induction hay needle rule: startsWith.induct) auto

lemma includes_str_iff: "includes_str hay needle \<longleftrightarrow> (\<exists>ps ss. hay = ps @ needle @ ss)"
proof (induction hay)
  case Nil
  show ?case by simp
next
  case (Cons h hs)
  have "(\<exists>ps ss. h # hs = ps @ needle @ ss) \<longleftrightarrow>
        (\<exists>ss. h # hs = needle @ ss) \<or> (\<exists>ps ss. hs = ps @ needle @ ss)"
  proof
    assume "\<exists>ps ss. h # hs = ps @ needle @ ss"
    then obtain ps ss where eq: "h # hs = ps @ needle @ ss" by blast
    show "(\<exists>ss. h # hs = needle @ ss) \<or> (\<exists>ps ss. hs = ps @ needle @ ss)"
    proof (cases ps)
      case Nil
      with eq show ?thesis by auto
    next
      case (Cons p ps')
      with eq have "hs = ps' @ needle @ ss" by simp
      then show ?thesis by blast
    qed
  next
    assume "(\<exists>ss. h # hs = needle @ ss) \<or> (\<exists>ps ss. hs = ps @ needle @ ss)"
    then show "\<exists>ps ss. h # hs = ps @ needle @ ss"
    proof
      assume "\<exists>ss. h # hs = needle @ ss"
      then obtain ss where "h # hs = [] @ needle @ ss" by auto
      then show ?thesis by blast
    next
      assume "\<exists>ps ss. hs = ps @ needle @ ss"
      then obtain ps ss where "h # hs = (h # ps) @ needle @ ss" by auto
      then show ?thesis by blast
    qed
  qed
  with Cons show ?case by (simp add: startsWith_iff)
qed

lemma Set_add_set: "set (Set_add s x) = insert x (set s)"
  by (auto simp: Set_add_def)

lemma Set_add_distinct: "distinct s \<Longrightarrow> distinct (Set_add s x)"
  by (auto simp: Set_add_def)

lemma foldl_Set_add:
  "set (foldl Set_add s xs) = set s \<union> set xs \<and> (distinct s \<longrightarrow> distinct (foldl Set_add s xs))"
  by (induction xs arbitrary: s) (auto simp: Set_add_set Set_add_distinct)

lemma Set_new_set: "set (Set_new xs) = set xs"
  by (simp add: Set_new_def foldl_Set_add)

lemma Set_new_distinct: "distinct (Set_new xs)"
  using foldl_Set_add [of "[]" xs] by (simp add: Set_new_def)

lemma Set_size_card: "Set_size (Set_new xs) = card (set xs)"
  using distinct_card [OF Set_new_distinct, of xs] by (simp add: Set_size_def Set_new_set)

section \<open>The relevance scorer\<close>

lemma count_matches_filter:
  "count_matches q c n = n + length (filter (\<lambda>t. t \<in> set q) c)"
  by (induction c arbitrary: n) (auto simp: Set_has_def)

lemma computeSimilarity_eq:
  "computeSimilarity query content =
     (if set (tokenize query) = {} \<or> tokenize content = [] then 0
      else min 1 (real (length (filter (\<lambda>t. t \<in> set (tokenize query)) (tokenize content)))
                    / sqrt (real (card (set (tokenize query)) * length (tokenize content)))
                  + (if includes_str (toLowerCase content) (toLowerCase query) then 3 / 10 else 0)))"
  unfolding computeSimilarity_def Let_def
  by (simp add: Set_size_card count_matches_filter Set_new_set del: of_nat_mult)

lemma computeSimilarity_range: "0 \<le> computeSimilarity query content \<and> computeSimilarity query content \<le> 1"
  by (simp add: computeSimilarity_eq del: of_nat_mult)

lemma tokenize_tea: "tokenize ''tea'' = [''tea'']"
  by code_simp

lemma tokenize_tea_and_milk_rice:
  "tokenize ''tea and milk rice'' = [''tea'', ''and'', ''milk'', ''rice'']"
  by code_simp

lemma includes_tea_and_milk_rice:
  "includes_str (toLowerCase ''tea and milk rice'') (toLowerCase ''tea'')"
  by code_simp

lemma includes_tea: "includes_str (toLowerCase ''tea'') (toLowerCase ''tea'')"
  by code_simp

lemma similarity_tea_and_milk_rice: "computeSimilarity ''tea'' ''tea and milk rice'' = 4 / 5"
  by (simp add: computeSimilarity_eq tokenize_tea tokenize_tea_and_milk_rice
        includes_tea_and_milk_rice)

lemma similarity_tea: "computeSimilarity ''tea'' ''tea'' = 1"
  by (simp add: computeSimilarity_eq tokenize_tea includes_tea)

text \<open>
  C4. The score of a query against a content is zero when the query has no token or the
  content has no token; otherwise it is the smaller of 1 and
  \<open>matches / sqrt (|Q| * |C|) + exactBoost\<close>, where \<open>Q\<close> is the set of the query's tokens,
  \<open>C\<close> the list of the content's tokens, \<open>matches\<close> the number of positions of \<open>C\<close> whose
  token is in \<open>Q\<close>, and \<open>exactBoost\<close> is 0.3 exactly when the lowercased content contains
  the lowercased query as a contiguous substring. The score always lies between 0 and 1.
\<close>

theorem computeSimilarity_formula:
  "computeSimilarity query content =
     (if set (tokenize query) = {} \<or> tokenize content = [] then 0
      else min 1 (real (length (filter (\<lambda>t. t \<in> set (tokenize query)) (tokenize content)))
                    / sqrt (real (card (set (tokenize query)) * length (tokenize content)))
                  + (if \<exists>ps ss. toLowerCase content = ps @ toLowerCase query @ ss
                     then 3 / 10 else 0)))
   \<and> 0 \<le> computeSimilarity query content
   \<and> computeSimilarity query content \<le> 1"
  using computeSimilarity_eq [of query content] computeSimilarity_range [of query content]
  by (simp only: includes_str_iff simp_thms)

theorem computeSimilarity_formula_witness:
  "computeSimilarity ''tea'' ''tea and milk rice'' = 4 / 5
   \<and> 0 \<le> computeSimilarity ''tea'' ''tea and milk rice''
   \<and> computeSimilarity ''tea'' ''tea and milk rice'' \<le> 1"
proof -
  have "\<exists>ps ss. toLowerCase ''tea and milk rice'' = ps @ toLowerCase ''tea'' @ ss"
    using includes_tea_and_milk_rice by (simp only: includes_str_iff)
  with computeSimilarity_formula [of "''tea''" "''tea and milk rice''"]
  show ?thesis
    by (simp add: tokenize_tea tokenize_tea_and_milk_rice)
qed

section \<open>The fact extractor\<close>

lemma test_patterns_eq:
  "test_patterns ps t facts = facts @ (if list_ex (\<lambda>p. regex_test p t) ps then [t] else [])"
  by (induction ps) auto

lemma scan_sentences_eq:
  "scan_sentences ss facts =
     facts @ filter (\<lambda>t. list_ex (\<lambda>p. regex_test p t) preferencePatterns) (map trim ss)"
  by (induction ss arbitrary: facts) (auto simp: test_patterns_eq)

text \<open>
  C6. The extractor splits the content on runs of \<open>.\<close>, \<open>!\<close> and \<open>?\<close>, trims each piece,
  drops the trimmed pieces of length at most 10 and emits, in the order of the text, each
  remaining piece once, exactly when one of the preference patterns matches it. The
  sentence \<open>I always drink green tea in the morning\<close> yields exactly itself.
\<close>

theorem extractFacts_spec:
  "extractFacts content containerTag =
     filter (\<lambda>t. list_ex (\<lambda>p. regex_test p t) preferencePatterns)
       (filter (\<lambda>t. 10 < length t) (map trim (split_regex isSentenceEnd content)))
   \<and> extractFacts ''I always drink green tea in the morning'' containerTag =
       [''I always drink green tea in the morning'']"
proof
  show "extractFacts content containerTag =
     filter (\<lambda>t. list_ex (\<lambda>p. regex_test p t) preferencePatterns)
       (filter (\<lambda>t. 10 < length t) (map trim (split_regex isSentenceEnd content)))"
    by (simp add: extractFacts_def scan_sentences_eq filter_map comp_def)
  show "extractFacts ''I always drink green tea in the morning'' containerTag =
       [''I always drink green tea in the morning'']"
    by code_simp
qed

theorem extractFacts_spec_witness:
  "extractFacts ''Hello. I prefer dark mode!  Remember to buy milk?! my default. I use it'' ''work'' =
     [''I prefer dark mode'', ''Remember to buy milk'']"
proof -
  have "filter (\<lambda>t. list_ex (\<lambda>p. regex_test p t) preferencePatterns)
          (filter (\<lambda>t. 10 < length t)
             (map trim (split_regex isSentenceEnd
                ''Hello. I prefer dark mode!  Remember to buy milk?! my default. I use it''))) =
        [''I prefer dark mode'', ''Remember to buy milk'']"
    by code_simp
  with extractFacts_spec
         [of "''Hello. I prefer dark mode!  Remember to buy milk?! my default. I use it''" "''work''"]
  show ?thesis by (simp only:)
qed

section \<open>Lists, slices and the stable sort\<close>

lemma set_js_slice: "set (js_slice xs n) \<subseteq> set xs"
  by (auto simp: js_slice_def dest: in_set_takeD)

lemma js_slice_nonneg: "0 \<le> n \<Longrightarrow> js_slice xs n = take (nat n) xs"
  by (simp add: js_slice_def)

lemma set_sql_limit: "set (sql_limit n xs) \<subseteq> set xs"
  by (auto simp: sql_limit_def dest: in_set_takeD)

lemma set_sql_offset: "set (sql_offset n xs) \<subseteq> set xs"
  by (auto simp: sql_offset_def dest: in_set_dropD)

lemma set_select_active:
  "set (select_active d tags) =
     {m \<in> set (memories d). m_container_tag m \<in> set tags \<and> m_forgotten_at m = None}"
  by (auto simp: select_active_def order_by_created_at_desc_def)

lemma mset_select_active:
  "mset (select_active d tags) =
     mset (filter (\<lambda>m. m_container_tag m \<in> set tags \<and> m_forgotten_at m = None) (memories d))"
  by (simp add: select_active_def order_by_created_at_desc_def)

lemma sorted_select_active:
  "sorted_wrt (\<lambda>a b. m_created_at b \<le> m_created_at a) (select_active d tags)"
proof -
  have "sorted (map (\<lambda>m. - m_created_at m) (select_active d tags))"
    by (simp add: select_active_def order_by_created_at_desc_def)
  then show ?thesis by (simp add: sorted_map)
qed

lemma set_sort_by_similarity_desc: "set (sort_by_similarity_desc f xs) = set xs"
  by (simp add: sort_by_similarity_desc_def)

lemma length_sort_by_similarity_desc: "length (sort_by_similarity_desc f xs) = length xs"
  by (simp add: sort_by_similarity_desc_def)

lemma mset_sort_by_similarity_desc: "mset (sort_by_similarity_desc f xs) = mset xs"
  by (simp add: sort_by_similarity_desc_def)

lemma sorted_sort_by_similarity_desc:
  "sorted_wrt (\<lambda>a b. f b \<le> f a) (sort_by_similarity_desc f xs)"
proof -
  have "sorted (map (\<lambda>r. - f r) (sort_by_similarity_desc f xs))"
    by (simp add: sort_by_similarity_desc_def)
  then show ?thesis by (simp add: sorted_map)
qed

lemma stable_sort_by_similarity_desc:
  "filter (\<lambda>r. f r = k) (sort_by_similarity_desc f xs) = filter (\<lambda>r. f r = k) xs"
  using sort_key_stable [of "\<lambda>r. - f r" "- k" xs]
  by (simp add: sort_by_similarity_desc_def)

lemma length_filter_mono:
  "(\<And>x. P x \<Longrightarrow> Q x) \<Longrightarrow> length (filter P xs) \<le> length (filter Q xs)"
  by (induction xs) auto

section \<open>Search\<close>

lemma search_nonempty:
  assumes "js_or (sq_q req) (sq_query req) = Some sq" and "sq \<noteq> []"
  shows "search d req elapsed =
     (let rs = js_slice
                 (sort_by_similarity_desc r_similarity
                    (filter (\<lambda>r. 5 / 100 < r_similarity r)
                       (map (to_result sq)
                          (search_working_set d
                             (resolve_tag (sq_containerTag req) (sq_containerTags req))))))
                 (case sq_limit req of None \<Rightarrow> 10 | Some l \<Rightarrow> l)
      in \<lparr>results = rs, timing = elapsed, total = length rs\<rparr>)"
  using assms by (simp add: search_def Let_def)

lemma search_result_rows:
  assumes "r \<in> set (results (search d req elapsed))"
  shows "\<exists>m \<in> set (memories d). r_id r = m_id m
           \<and> m_container_tag m = resolve_tag (sq_containerTag req) (sq_containerTags req)
           \<and> m_forgotten_at m = None"
proof (cases "js_or (sq_q req) (sq_query req)")
  case None
  with assms show ?thesis by (simp add: search_def)
next
  case (Some sq)
  show ?thesis
  proof (cases "sq = []")
    case True
    with Some assms show ?thesis by (simp add: search_def)
  next
    case False
    let ?tag = "resolve_tag (sq_containerTag req) (sq_containerTags req)"
    let ?scored = "filter (\<lambda>r. 5 / 100 < r_similarity r) (map (to_result sq) (search_working_set d ?tag))"
    from assms Some False
    have "r \<in> set (js_slice (sort_by_similarity_desc r_similarity ?scored)
                    (case sq_limit req of None \<Rightarrow> 10 | Some l \<Rightarrow> l))"
      by (simp add: search_nonempty Let_def)
    then have "r \<in> set (sort_by_similarity_desc r_similarity ?scored)"
      by (rule subsetD [OF set_js_slice])
    then have "r \<in> set ?scored"
      by (simp only: set_sort_by_similarity_desc)
    then have "r \<in> set (map (to_result sq) (search_working_set d ?tag))"
      by simp
    then obtain m where m: "m \<in> set (search_working_set d ?tag)" and r: "r = to_result sq m"
      by auto
    from m have "m \<in> set (select_active d [?tag])"
      unfolding search_working_set_def by (rule subsetD [OF set_sql_limit])
    then have "m \<in> set (memories d) \<and> m_container_tag m = ?tag \<and> m_forgotten_at m = None"
      by (simp add: set_select_active)
    with r show ?thesis by (auto simp: to_result_def)
  qed
qed

lemma list_result_rows:
  assumes "s \<in> set (l_memories (list_documents d req))"
  shows "\<exists>m \<in> set (memories d). s_id s = m_id m
           \<and> m_container_tag m \<in> set (case lq_containerTags req of None \<Rightarrow> [''default''] | Some ts \<Rightarrow> ts)
           \<and> m_forgotten_at m = None"
proof -
  let ?tags = "case lq_containerTags req of None \<Rightarrow> [''default''] | Some ts \<Rightarrow> ts"
  let ?limit = "case lq_limit req of None \<Rightarrow> 100 | Some l \<Rightarrow> l"
  let ?page = "case lq_page req of None \<Rightarrow> 1 | Some p \<Rightarrow> p"
  let ?rows = "sql_limit ?limit (sql_offset ((?page - 1) * ?limit) (select_active d ?tags))"
  from assms have "s \<in> set (map to_summary ?rows)"
    by (simp add: list_documents_def Let_def)
  then obtain m where rows: "m \<in> set ?rows" and s: "s = to_summary m"
    by auto
  from rows have "m \<in> set (sql_offset ((?page - 1) * ?limit) (select_active d ?tags))"
    by (rule subsetD [OF set_sql_limit])
  then have m: "m \<in> set (select_active d ?tags)"
    by (rule subsetD [OF set_sql_offset])
  from m have "m \<in> set (memories d) \<and> m_container_tag m \<in> set ?tags \<and> m_forgotten_at m = None"
    by (simp add: set_select_active)
  with s show ?thesis by (auto simp: to_summary_def)
qed

lemma ids_distinct_same_row:
  "ids_distinct d \<Longrightarrow> m \<in> set (memories d) \<Longrightarrow> m' \<in> set (memories d) \<Longrightarrow>
     m_id m = m_id m' \<Longrightarrow> m = m'"
  unfolding ids_distinct_def distinct_map by (blast dest: inj_onD)


lemma working_set_example: "search_working_set example_db ''work'' = [memory_b, memory_a]"
  by (simp add: search_working_set_def sql_limit_def select_active_def
        order_by_created_at_desc_def example_db_def memory_a_def memory_b_def memory_c_def)

lemma tea_search_query: "js_or (sq_q (tea_search l)) (sq_query (tea_search l)) = Some ''tea''"
  by (simp add: tea_search_def js_or_def js_truthy_def)

lemma tea_search_tag:
  "resolve_tag (sq_containerTag (tea_search l)) (sq_containerTags (tea_search l)) = ''work''"
  by (simp add: tea_search_def resolve_tag_def js_or_def js_truthy_def)

lemma similarity_memory_a: "r_similarity (to_result ''tea'' memory_a) = 4 / 5"
  by (simp add: to_result_def memory_a_def similarity_tea_and_milk_rice)

lemma similarity_memory_b: "r_similarity (to_result ''tea'' memory_b) = 1"
  by (simp add: to_result_def memory_b_def similarity_tea)

lemma ranked_example:
  "sort_by_similarity_desc r_similarity [to_result ''tea'' memory_b, to_result ''tea'' memory_a] =
     [to_result ''tea'' memory_b, to_result ''tea'' memory_a]"
  by (simp add: sort_by_similarity_desc_def similarity_memory_a similarity_memory_b)

lemma tea_search_results:
  "results (search example_db (tea_search (Some l)) elapsed) =
     js_slice [to_result ''tea'' memory_b, to_result ''tea'' memory_a] l"
  by (simp add: search_nonempty [OF tea_search_query] Let_def tea_search_tag
        working_set_example similarity_memory_a similarity_memory_b ranked_example)
    (simp add: tea_search_def)

text \<open>
  C5, as the claim states it, fails: with the limit \<open>-1\<close> the slice drops the last entry
  instead of truncating, and the response carries one result, more than the limit.
\<close>

theorem search_negative_limit_counterexample:
  "results (search example_db (tea_search (Some (- 1))) 7) = [to_result ''tea'' memory_b]
   \<and> \<not> int (length (results (search example_db (tea_search (Some (- 1))) 7))) \<le> - 1"
  by (simp add: tea_search_results js_slice_def)

text \<open>
  C5, amended. For a search with a non-empty query and a limit that is not negative
  (10 when the body has none), the results are the first \<open>limit\<close> entries of the ranking
  of the qualifying entries: the entries of the working set, in its order, whose score is
  above 0.05. The ranking is a permutation of the qualifying entries, sorted by score with
  the highest first, and entries of equal score keep the order of the working set. The
  working set is the first 1000 rows of the active rows of the container, most recent first.
\<close>

theorem search_results_spec:
  assumes "js_or (sq_q req) (sq_query req) = Some sq" and "sq \<noteq> []"
    and "limit = (case sq_limit req of None \<Rightarrow> 10 | Some l \<Rightarrow> l)" and "0 \<le> limit"
    and "tag = resolve_tag (sq_containerTag req) (sq_containerTags req)"
    and "qualifying =
           filter (\<lambda>r. 5 / 100 < r_similarity r) (map (to_result sq) (search_working_set d tag))"
    and "ranked = sort_by_similarity_desc r_similarity qualifying"
  shows "results (search d req elapsed) = take (nat limit) ranked
    \<and> int (length (results (search d req elapsed))) \<le> limit
    \<and> mset ranked = mset qualifying
    \<and> sorted_wrt (\<lambda>a b. r_similarity b \<le> r_similarity a) ranked
    \<and> (\<forall>k. filter (\<lambda>r. r_similarity r = k) ranked = filter (\<lambda>r. r_similarity r = k) qualifying)
    \<and> search_working_set d tag = take 1000 (select_active d [tag])
    \<and> mset (select_active d [tag]) =
        mset (filter (\<lambda>m. m_container_tag m = tag \<and> m_forgotten_at m = None) (memories d))
    \<and> sorted_wrt (\<lambda>a b. m_created_at b \<le> m_created_at a) (select_active d [tag])"
proof -
  have res: "results (search d req elapsed) = take (nat limit) ranked"
    using assms by (simp add: search_nonempty Let_def js_slice_nonneg)
  have len: "int (length (results (search d req elapsed))) \<le> limit"
    using \<open>0 \<le> limit\<close> by (simp add: res)
  have perm: "mset ranked = mset qualifying"
    using assms(7) by (simp only: mset_sort_by_similarity_desc)
  have sorted: "sorted_wrt (\<lambda>a b. r_similarity b \<le> r_similarity a) ranked"
    using assms(7) by (simp only: sorted_sort_by_similarity_desc)
  have stable: "\<forall>k. filter (\<lambda>r. r_similarity r = k) ranked = filter (\<lambda>r. r_similarity r = k) qualifying"
    using assms(7) by (simp only: stable_sort_by_similarity_desc simp_thms)
  have ws: "search_working_set d tag = take 1000 (select_active d [tag])"
    by (simp add: search_working_set_def sql_limit_def)
  have active: "mset (select_active d [tag]) =
      mset (filter (\<lambda>m. m_container_tag m = tag \<and> m_forgotten_at m = None) (memories d))"
    by (simp add: mset_select_active)
  from res len perm sorted stable ws active sorted_select_active [of d "[tag]"]
  show ?thesis by (intro conjI)
qed

theorem search_results_spec_witness:
  "results (search example_db (tea_search (Some 1)) 7) = [to_result ''tea'' memory_b]
   \<and> int (length (results (search example_db (tea_search (Some 1)) 7))) \<le> 1
   \<and> search_working_set example_db ''work'' = take 1000 (select_active example_db [''work''])"
proof -
  have limit: "(1::int) = (case sq_limit (tea_search (Some 1)) of None \<Rightarrow> 10 | Some l \<Rightarrow> l)"
    by (simp add: tea_search_def)
  have nonempty: "''tea'' \<noteq> []" by simp
  have nonneg: "(0::int) \<le> 1" by simp
  note spec = search_results_spec
    [OF tea_search_query nonempty limit nonneg tea_search_tag [symmetric] refl refl,
      of example_db 7]
  from spec show ?thesis
    by (simp add: working_set_example similarity_memory_a similarity_memory_b ranked_example)
qed

text \<open>
  C10. The field \<open>total\<close> of a search response is the number of entries of its \<open>results\<close>,
  counted after the filter and the truncation.
\<close>

theorem search_total:
  "total (search d req elapsed) = length (results (search d req elapsed))"
  by (simp add: search_def Let_def split: option.split)

theorem search_total_witness:
  "total (search example_db (tea_search (Some 1)) 7) = 1
   \<and> length (results (search example_db (tea_search (Some 1)) 7)) = 1
   \<and> length (filter (\<lambda>r. 5 / 100 < r_similarity r)
        (map (to_result ''tea'') (search_working_set example_db ''work''))) = 2"
  using search_total [of example_db "tea_search (Some 1)" 7]
  by (simp add: tea_search_results js_slice_def working_set_example similarity_memory_a
        similarity_memory_b)

section \<open>The profile's search\<close>

lemma js_gt_antimono: "js_le t1 t2 \<Longrightarrow> js_gt x t2 \<Longrightarrow> js_gt x t1"
  by (cases t1; cases t2) auto

lemma length_js_slice_nonneg: "0 \<le> n \<Longrightarrow> length (js_slice xs n) = min (nat n) (length xs)"
  by (simp add: js_slice_def min.commute)

lemma profile_result_count_eq:
  "profile_result_count (profile_search d containerTag q t) =
     (case q of
        None \<Rightarrow> 0
      | Some qs \<Rightarrow>
          if qs = [] then 0
          else min 10 (length (filter (\<lambda>r. js_gt (p_similarity r) t)
                 (map (to_profile_result qs)
                    (sql_limit 500
                       (select_active d
                          [case js_or containerTag (Some ''default'') of
                             None \<Rightarrow> ''default'' | Some tg \<Rightarrow> tg]))))))"
  by (auto simp: profile_result_count_def profile_search_def Let_def js_truthy_def
        length_js_slice_nonneg length_sort_by_similarity_desc split: option.split)

text \<open>
  C9. For the same store, container and query, a profile request with the threshold \<open>t2\<close>
  returns at most as many search results as one with a threshold \<open>t1 \<le> t2\<close>.
\<close>

theorem profile_threshold_monotone:
  assumes "js_le t1 t2"
  shows "profile_result_count (profile_search d containerTag q t2)
           \<le> profile_result_count (profile_search d containerTag q t1)"
proof (cases q)
  case None
  then show ?thesis by (simp add: profile_result_count_eq)
next
  case (Some qs)
  show ?thesis
  proof (cases "qs = []")
    case True
    with Some show ?thesis by (simp add: profile_result_count_eq)
  next
    case False
    have "length (filter (\<lambda>r. js_gt (p_similarity r) t2) xs)
            \<le> length (filter (\<lambda>r. js_gt (p_similarity r) t1) xs)" for xs :: "profile_result list"
      by (rule length_filter_mono) (rule js_gt_antimono [OF assms])
    then have "min 10 (length (filter (\<lambda>r. js_gt (p_similarity r) t2) xs))
            \<le> min 10 (length (filter (\<lambda>r. js_gt (p_similarity r) t1) xs))"
      for xs :: "profile_result list"
      by (rule min.mono [OF order_refl])
    with Some False show ?thesis
      by (simp only: profile_result_count_eq option.case if_False)
  qed
qed

lemma profile_rows_example:
  "sql_limit 500 (select_active example_db [''work'']) = [memory_b, memory_a]"
  by (simp add: sql_limit_def select_active_def order_by_created_at_desc_def example_db_def
        memory_a_def memory_b_def memory_c_def)

lemma profile_similarity_memory_a: "p_similarity (to_profile_result ''tea'' memory_a) = 4 / 5"
  by (simp add: to_profile_result_def memory_a_def similarity_tea_and_milk_rice)

lemma profile_similarity_memory_b: "p_similarity (to_profile_result ''tea'' memory_b) = 1"
  by (simp add: to_profile_result_def memory_b_def similarity_tea)

lemma profile_count_example:
  "profile_result_count (profile_search example_db (Some ''work'') (Some ''tea'') (Finite t)) =
     (if t < 4 / 5 then 2 else if t < 1 then 1 else 0)"
  by (simp add: profile_result_count_eq js_or_def js_truthy_def profile_rows_example
        profile_similarity_memory_a profile_similarity_memory_b)

theorem profile_threshold_monotone_witness:
  "js_le (Finite (1 / 10)) (Finite (9 / 10))
   \<and> profile_result_count (profile_search example_db (Some ''work'') (Some ''tea'') (Finite (9 / 10))) = 1
   \<and> profile_result_count (profile_search example_db (Some ''work'') (Some ''tea'') (Finite (1 / 10))) = 2
   \<and> profile_result_count (profile_search example_db (Some ''work'') (Some ''tea'') (Finite (9 / 10)))
       \<le> profile_result_count (profile_search example_db (Some ''work'') (Some ''tea'') (Finite (1 / 10)))"
proof -
  have le: "js_le (Finite (1 / 10)) (Finite (9 / 10))" by simp
  from le profile_threshold_monotone [OF le, of example_db "Some ''work''" "Some ''tea''"]
  show ?thesis by (simp add: profile_count_example)
qed

section \<open>Partition isolation\<close>

text \<open>
  C8. A memory of container \<open>A\<close> never appears in the results of a search or of a listing
  that is scoped to another container \<open>B\<close> only.
\<close>

theorem partition_isolation:
  assumes "ids_distinct d" and "m \<in> set (memories d)" and "m_container_tag m = A"
    and "A \<noteq> B"
    and "resolve_tag (sq_containerTag sreq) (sq_containerTags sreq) = B"
    and "lq_containerTags lreq = Some [B]"
  shows "m_id m \<notin> r_id ` set (results (search d sreq elapsed))
       \<and> m_id m \<notin> s_id ` set (l_memories (list_documents d lreq))"
proof
  show "m_id m \<notin> r_id ` set (results (search d sreq elapsed))"
  proof
    assume "m_id m \<in> r_id ` set (results (search d sreq elapsed))"
    then obtain r where "r \<in> set (results (search d sreq elapsed))" and "r_id r = m_id m"
      by auto
    with search_result_rows [of r d sreq elapsed] assms(5)
    obtain m' where "m' \<in> set (memories d)" and "m_id m' = m_id m" and "m_container_tag m' = B"
      by auto
    with ids_distinct_same_row [OF assms(1) assms(2), of m'] assms(3,4)
    show False by auto
  qed
  show "m_id m \<notin> s_id ` set (l_memories (list_documents d lreq))"
  proof
    assume "m_id m \<in> s_id ` set (l_memories (list_documents d lreq))"
    then obtain s where "s \<in> set (l_memories (list_documents d lreq))" and "s_id s = m_id m"
      by auto
    with list_result_rows [of s d lreq] assms(6)
    obtain m' where "m' \<in> set (memories d)" and "m_id m' = m_id m" and "m_container_tag m' = B"
      by auto
    with ids_distinct_same_row [OF assms(1) assms(2), of m'] assms(3,4)
    show False by auto
  qed
qed

section \<open>Creating a memory\<close>

lemma add_creates_row:
  assumes "add d req gen now = (d', Json body)"
  shows "\<exists>row. memories d' = memories d @ [row] \<and> m_id row = a_id body
           \<and> m_id row \<notin> m_id ` set (memories d)
           \<and> m_container_tag row = resolve_tag (a_containerTag req) (a_containerTags req)
           \<and> m_forgotten_at row = None"
  using assms
  by (auto simp: add_def Let_def split: option.splits if_splits)

lemma add_keeps_ids_distinct:
  assumes "ids_distinct d"
  shows "ids_distinct (fst (add d req gen now))"
  using assms
  by (auto simp: add_def Let_def ids_distinct_def split: option.splits)

lemma extractFacts_tea: "extractFacts ''tea'' tag = []"
  by code_simp

lemma add_example:
  "add example_db home_add (\<lambda>k. ''n'') 9 =
     (\<lparr>memories = [memory_a, memory_b, memory_c, memory_n], profile_facts = [fact_tea]\<rparr>,
      Json \<lparr>a_id = ''n'', created = True\<rparr>)"
  by (simp add: add_def home_add_def Let_def resolve_tag_def js_or_def js_truthy_def
        extractFacts_tea example_db_def memory_a_def memory_b_def memory_c_def memory_n_def)

theorem partition_isolation_witness:
  "m_id memory_n \<notin> r_id ` set (results (search (fst (add example_db home_add (\<lambda>k. ''n'') 9))
                                      (tea_search None) 7))
   \<and> m_id memory_n \<notin> s_id ` set (l_memories
        (list_documents (fst (add example_db home_add (\<lambda>k. ''n'') 9))
           \<lparr>lq_containerTags = Some [''work''], lq_limit = None, lq_page = None\<rparr>))"
proof -
  let ?d = "fst (add example_db home_add (\<lambda>k. ''n'') 9)"
  have distinct: "ids_distinct ?d"
    by (simp add: add_example ids_distinct_def memory_a_def memory_b_def memory_c_def memory_n_def)
  have member: "memory_n \<in> set (memories ?d)"
    by (simp add: add_example)
  have tag: "m_container_tag memory_n = ''home''"
    by (simp add: memory_n_def)
  have differ: "''home'' \<noteq> ''work''"
    by simp
  have scope: "lq_containerTags \<lparr>lq_containerTags = Some [''work''], lq_limit = None, lq_page = None\<rparr>
                 = Some [''work'']"
    by simp
  show ?thesis
    by (rule partition_isolation [OF distinct member tag differ tea_search_tag scope])
qed

section \<open>Soft delete\<close>

lemma forget_by_id:
  assumes "i \<noteq> []"
  shows "forget d \<lparr>fg_containerTag = tag, fg_id = Some i, fg_content = c\<rparr> now =
     (d\<lparr>memories := update_forget_by_id (memories d) now i tag\<rparr>,
      Json \<lparr>fr_id = i, forgotten = True\<rparr>)"
  using assms by (simp add: forget_def js_truthy_def)

lemma map_id_update_forget_by_id:
  "map m_id (update_forget_by_id rows now i tag) = map m_id rows"
  by (induction rows) (auto simp: update_forget_by_id_def)

lemma update_forget_by_id_other:
  "i \<notin> m_id ` set rows \<Longrightarrow> update_forget_by_id rows now i tag = rows"
  by (induction rows) (auto simp: update_forget_by_id_def)

lemma update_forget_by_id_member:
  "m \<in> set rows \<Longrightarrow>
     m\<lparr>m_forgotten_at := Some now\<rparr> \<in> set (update_forget_by_id rows now (m_id m) (m_container_tag m))"
  by (induction rows) (auto simp: update_forget_by_id_def)

lemma update_forget_by_id_forgotten:
  assumes "distinct (map m_id rows)" and "m \<in> set rows"
    and "m' \<in> set (update_forget_by_id rows now (m_id m) (m_container_tag m))"
    and "m_id m' = m_id m"
  shows "m_forgotten_at m' = Some now"
proof -
  from assms(3) obtain m0 where m0: "m0 \<in> set rows"
    and m': "m' = (if m_id m0 = m_id m \<and> m_container_tag m0 = m_container_tag m
                   then m0\<lparr>m_forgotten_at := Some now\<rparr> else m0)"
    by (auto simp: update_forget_by_id_def)
  from m' assms(4) have "m_id m0 = m_id m" by (simp split: if_splits)
  with assms(1,2) m0 have "m0 = m"
    unfolding distinct_map by (blast dest: inj_onD)
  with m' show ?thesis by simp
qed

lemma active_count_after_forget:
  assumes "distinct (map m_id rows)" and "m \<in> set rows" and "m_forgotten_at m = None"
  shows "length (filter (\<lambda>r. m_forgotten_at r = None)
           (update_forget_by_id rows now (m_id m) (m_container_tag m))) + 1 =
         length (filter (\<lambda>r. m_forgotten_at r = None) rows)"
  using assms
proof (induction rows)
  case Nil
  then show ?case by simp
next
  case (Cons x xs)
  show ?case
  proof (cases "x = m")
    case True
    with Cons.prems have "m_id m \<notin> m_id ` set xs" by auto
    then have "update_forget_by_id xs now (m_id m) (m_container_tag m) = xs"
      by (rule update_forget_by_id_other)
    with True Cons.prems(3) show ?thesis
      by (simp add: update_forget_by_id_def)
  next
    case False
    with Cons.prems have mem: "m \<in> set xs" and dist: "distinct (map m_id xs)" by auto
    from Cons.prems(1) mem have "m_id x \<noteq> m_id m" by auto
    with Cons.IH [OF dist mem Cons.prems(3)] show ?thesis
      by (simp add: update_forget_by_id_def)
  qed
qed

lemma count_id_distinct:
  "distinct (map m_id rows) \<Longrightarrow> i \<in> m_id ` set rows \<Longrightarrow>
     length (filter (\<lambda>r. m_id r = i) rows) = 1"
proof (induction rows)
  case Nil
  then show ?case by simp
next
  case (Cons x xs)
  show ?case
  proof (cases "m_id x = i")
    case True
    with Cons.prems(1) have "i \<notin> m_id ` set xs" by auto
    then have "filter (\<lambda>r. m_id r = i) xs = []"
      by (auto simp: filter_empty_conv)
    with True show ?thesis by simp
  next
    case False
    with Cons show ?thesis by auto
  qed
qed

lemma map_tag_update_forget_by_id:
  "map m_container_tag (update_forget_by_id rows now i tag) = map m_container_tag rows"
  by (induction rows) (auto simp: update_forget_by_id_def)

lemma forget_memory_c:
  "fst (forget example_db \<lparr>fg_containerTag = ''home'', fg_id = Some ''c'', fg_content = None\<rparr> 9) =
     \<lparr>memories = [memory_a, memory_b, memory_c\<lparr>m_forgotten_at := Some 9\<rparr>],
      profile_facts = [fact_tea]\<rparr>"
  by (simp add: forget_def js_truthy_def update_forget_by_id_def example_db_def memory_a_def
        memory_b_def memory_c_def)

text \<open>
  C7, as the claim states it, fails for \<open>stats\<close>: the list of containers is read from
  all rows (\<open>SELECT DISTINCT container_tag FROM memories\<close>, with no condition on
  \<open>forgotten_at\<close>). After the only memory of the container \<open>home\<close> is forgotten, no
  active memory is left in \<open>home\<close>, yet \<open>stats\<close> still lists \<open>home\<close>, and so differs from
  the \<open>stats\<close> of the store without that memory.
\<close>

theorem stats_containers_counterexample:
  "filter (\<lambda>r. m_container_tag r = ''home'' \<and> m_forgotten_at r = None)
     (memories (fst (forget example_db
        \<lparr>fg_containerTag = ''home'', fg_id = Some ''c'', fg_content = None\<rparr> 9))) = []
   \<and> st_containers (stats (fst (forget example_db
        \<lparr>fg_containerTag = ''home'', fg_id = Some ''c'', fg_content = None\<rparr> 9))) =
       [''work'', ''home'']
   \<and> st_containers (stats (example_db\<lparr>memories := [memory_a, memory_b]\<rparr>)) = [''work'']
   \<and> stats (fst (forget example_db
        \<lparr>fg_containerTag = ''home'', fg_id = Some ''c'', fg_content = None\<rparr> 9)) \<noteq>
       stats (example_db\<lparr>memories := [memory_a, memory_b]\<rparr>)"
proof -
  have after: "st_containers (stats (fst (forget example_db
        \<lparr>fg_containerTag = ''home'', fg_id = Some ''c'', fg_content = None\<rparr> 9))) =
       [''work'', ''home'']"
    by (simp add: forget_memory_c stats_def Set_new_def Set_add_def memory_a_def memory_b_def
          memory_c_def)
  have without: "st_containers (stats (example_db\<lparr>memories := [memory_a, memory_b]\<rparr>)) = [''work'']"
    by (simp add: stats_def Set_new_def Set_add_def memory_a_def memory_b_def)
  have none: "filter (\<lambda>r. m_container_tag r = ''home'' \<and> m_forgotten_at r = None)
     (memories (fst (forget example_db
        \<lparr>fg_containerTag = ''home'', fg_id = Some ''c'', fg_content = None\<rparr> 9))) = []"
    by (simp add: forget_memory_c memory_a_def memory_b_def memory_c_def)
  from after without have differ: "stats (fst (forget example_db
        \<lparr>fg_containerTag = ''home'', fg_id = Some ''c'', fg_content = None\<rparr> 9)) \<noteq>
       stats (example_db\<lparr>memories := [memory_a, memory_b]\<rparr>)"
    by auto
  from none after without differ show ?thesis by (intro conjI)
qed

text \<open>
  C7, amended. After \<open>forget(tag, id)\<close> has soft-deleted a memory, no search and no
  listing returns it and the count of active memories of \<open>stats\<close> leaves it out (one less
  than before when the memory was active), while the list of containers of \<open>stats\<close> is
  the same as before the forget and still names the memory's container; the row is still
  stored, with its \<open>forgotten_at\<close> set, and both the bulk delete with its id and the wipe
  of its container remove it.
\<close>

theorem soft_delete_visibility:
  assumes "ids_distinct d" and "m \<in> set (memories d)" and "m_id m = i" and "i \<noteq> []"
    and "m_container_tag m = tag"
    and "d' = fst (forget d \<lparr>fg_containerTag = tag, fg_id = Some i, fg_content = c\<rparr> now)"
  shows "i \<notin> r_id ` set (results (search d' sreq elapsed))
       \<and> i \<notin> s_id ` set (l_memories (list_documents d' lreq))
       \<and> st_memories (stats d') =
           length (filter (\<lambda>r. m_forgotten_at r = None \<and> m_id r \<noteq> i) (memories d'))
       \<and> (m_forgotten_at m = None \<longrightarrow> st_memories (stats d') + 1 = st_memories (stats d))
       \<and> m\<lparr>m_forgotten_at := Some now\<rparr> \<in> set (memories d')
       \<and> snd (deleteBulk d' (IdsArray [i])) = Json \<lparr>deleted = 1\<rparr>
       \<and> i \<notin> m_id ` set (memories (fst (deleteBulk d' (IdsArray [i]))))
       \<and> i \<notin> m_id ` set (memories (fst (wipe d' tag)))
       \<and> st_containers (stats d') = st_containers (stats d)
       \<and> tag \<in> set (st_containers (stats d'))"
proof -
  have d': "memories d' = update_forget_by_id (memories d) now (m_id m) (m_container_tag m)"
    using assms(3-6) by (simp add: forget_by_id)
  have dist: "distinct (map m_id (memories d))"
    using assms(1) by (simp add: ids_distinct_def)
  have forgotten: "m_forgotten_at m' = Some now"
    if "m' \<in> set (memories d')" and "m_id m' = i" for m'
    using that assms(3) update_forget_by_id_forgotten [OF dist assms(2), of m' now]
    by (simp add: d')
  have tagged: "m_container_tag m' = tag"
    if "m' \<in> set (memories d')" and "m_id m' = i" for m'
  proof -
    from that(1) obtain m0 where m0: "m0 \<in> set (memories d)"
      and m': "m' = (if m_id m0 = m_id m \<and> m_container_tag m0 = m_container_tag m
                     then m0\<lparr>m_forgotten_at := Some now\<rparr> else m0)"
      by (auto simp: d' update_forget_by_id_def)
    from m' that(2) assms(3) have "m_id m0 = m_id m" by (simp split: if_splits)
    with ids_distinct_same_row [OF assms(1) m0 assms(2)] have "m0 = m" by simp
    with m' assms(5) show ?thesis by simp
  qed
  have search: "i \<notin> r_id ` set (results (search d' sreq elapsed))"
  proof
    assume "i \<in> r_id ` set (results (search d' sreq elapsed))"
    then obtain r where "r \<in> set (results (search d' sreq elapsed))" and "r_id r = i"
      by auto
    with search_result_rows [of r d' sreq elapsed]
    obtain m' where "m' \<in> set (memories d')" and "m_id m' = i" and "m_forgotten_at m' = None"
      by auto
    with forgotten [of m'] show False by simp
  qed
  have listing: "i \<notin> s_id ` set (l_memories (list_documents d' lreq))"
  proof
    assume "i \<in> s_id ` set (l_memories (list_documents d' lreq))"
    then obtain s where "s \<in> set (l_memories (list_documents d' lreq))" and "s_id s = i"
      by auto
    with list_result_rows [of s d' lreq]
    obtain m' where "m' \<in> set (memories d')" and "m_id m' = i" and "m_forgotten_at m' = None"
      by auto
    with forgotten [of m'] show False by simp
  qed
  have "filter (\<lambda>r. m_forgotten_at r = None) (memories d') =
        filter (\<lambda>r. m_forgotten_at r = None \<and> m_id r \<noteq> i) (memories d')"
    by (rule filter_cong [OF refl]) (use forgotten in auto)
  then have count: "st_memories (stats d') =
      length (filter (\<lambda>r. m_forgotten_at r = None \<and> m_id r \<noteq> i) (memories d'))"
    by (simp add: stats_def)
  have less: "m_forgotten_at m = None \<longrightarrow> st_memories (stats d') + 1 = st_memories (stats d)"
    using active_count_after_forget [OF dist assms(2), of now]
    by (simp add: stats_def d')
  have stored: "m\<lparr>m_forgotten_at := Some now\<rparr> \<in> set (memories d')"
    using update_forget_by_id_member [OF assms(2), of now] by (simp add: d')
  have ids': "map m_id (memories d') = map m_id (memories d)"
    by (simp add: d' map_id_update_forget_by_id)
  have dist': "distinct (map m_id (memories d'))"
    using dist by (simp add: ids')
  from stored have "m_id (m\<lparr>m_forgotten_at := Some now\<rparr>) \<in> m_id ` set (memories d')"
    by (rule imageI)
  then have present: "i \<in> m_id ` set (memories d')"
    using assms(3) by simp
  have bulk: "snd (deleteBulk d' (IdsArray [i])) = Json \<lparr>deleted = 1\<rparr>"
    using count_id_distinct [OF dist' present] by (simp add: deleteBulk_def)
  have gone: "i \<notin> m_id ` set (memories (fst (deleteBulk d' (IdsArray [i]))))"
    by (auto simp: deleteBulk_def)
  have wiped: "i \<notin> m_id ` set (memories (fst (wipe d' tag)))"
    using tagged by (auto simp: wipe_def)
  have containers: "st_containers (stats d') = st_containers (stats d)"
    by (simp add: stats_def d' map_tag_update_forget_by_id)
  from assms(2) have "m_container_tag m \<in> m_container_tag ` set (memories d)"
    by (rule imageI)
  then have "tag \<in> set (st_containers (stats d))"
    using assms(5) by (simp add: stats_def Set_new_set)
  then have named: "tag \<in> set (st_containers (stats d'))"
    by (simp only: containers)
  from search listing count less stored bulk gone wiped containers named show ?thesis
    by (intro conjI)
qed


theorem soft_delete_visibility_witness:
  "''b'' \<notin> r_id ` set (results (search
       (fst (forget example_db \<lparr>fg_containerTag = ''work'', fg_id = Some ''b'', fg_content = None\<rparr> 9))
       (tea_search None) 7))
   \<and> ''b'' \<notin> s_id ` set (l_memories (list_documents
       (fst (forget example_db \<lparr>fg_containerTag = ''work'', fg_id = Some ''b'', fg_content = None\<rparr> 9))
       \<lparr>lq_containerTags = Some [''work''], lq_limit = None, lq_page = None\<rparr>))
   \<and> st_memories (stats
       (fst (forget example_db \<lparr>fg_containerTag = ''work'', fg_id = Some ''b'', fg_content = None\<rparr> 9)))
        + 1 = st_memories (stats example_db)
   \<and> memory_b\<lparr>m_forgotten_at := Some 9\<rparr> \<in> set (memories
       (fst (forget example_db \<lparr>fg_containerTag = ''work'', fg_id = Some ''b'', fg_content = None\<rparr> 9)))
   \<and> snd (deleteBulk
       (fst (forget example_db \<lparr>fg_containerTag = ''work'', fg_id = Some ''b'', fg_content = None\<rparr> 9))
       (IdsArray [''b''])) = Json \<lparr>deleted = 1\<rparr>
   \<and> ''b'' \<notin> m_id ` set (memories (fst (wipe
       (fst (forget example_db \<lparr>fg_containerTag = ''work'', fg_id = Some ''b'', fg_content = None\<rparr> 9))
       ''work'')))
   \<and> st_containers (stats
       (fst (forget example_db \<lparr>fg_containerTag = ''work'', fg_id = Some ''b'', fg_content = None\<rparr> 9)))
       = st_containers (stats example_db)
   \<and> ''work'' \<in> set (st_containers (stats
       (fst (forget example_db \<lparr>fg_containerTag = ''work'', fg_id = Some ''b'', fg_content = None\<rparr> 9))))"
proof -
  have distinct: "ids_distinct example_db"
    by (simp add: ids_distinct_def example_db_def memory_a_def memory_b_def memory_c_def)
  have member: "memory_b \<in> set (memories example_db)"
    by (simp add: example_db_def)
  have ident: "m_id memory_b = ''b''"
    by (simp add: memory_b_def)
  have nonempty: "''b'' \<noteq> []"
    by simp
  have tag: "m_container_tag memory_b = ''work''"
    by (simp add: memory_b_def)
  have active: "m_forgotten_at memory_b = None"
    by (simp add: memory_b_def)
  from active soft_delete_visibility [OF distinct member ident nonempty tag refl,
      of None 9 "tea_search None" 7
         "\<lparr>lq_containerTags = Some [''work''], lq_limit = None, lq_page = None\<rparr>"]
  show ?thesis by blast
qed

section \<open>The primary key of the memories\<close>

text \<open>
  The ids of the stored memories are distinct in the empty store, and every handler that
  writes keeps them distinct.
\<close>

lemma ids_distinct_empty: "ids_distinct empty_db"
  by (simp add: ids_distinct_def empty_db_def)

lemma forget_keeps_ids_distinct:
  assumes "ids_distinct d"
  shows "ids_distinct (fst (forget d req now))"
proof -
  have "map m_id (update_forget_by_content rows now c tag) = map m_id rows" for rows c tag
    by (induction rows) (auto simp: update_forget_by_content_def)
  with assms show ?thesis
    by (auto simp: forget_def ids_distinct_def Let_def map_id_update_forget_by_id
          split: option.splits)
qed

lemma deleteBulk_keeps_ids_distinct:
  assumes "ids_distinct d"
  shows "ids_distinct (fst (deleteBulk d ids))"
  using assms
  by (cases ids) (simp_all add: deleteBulk_def ids_distinct_def distinct_map_filter)

lemma wipe_keeps_ids_distinct:
  assumes "ids_distinct d"
  shows "ids_distinct (fst (wipe d tag))"
  using assms by (simp add: wipe_def ids_distinct_def distinct_map_filter)

lemma promote_keeps_ids_distinct:
  assumes "ids_distinct d"
  shows "ids_distinct (fst (promote d tag fact_text now))"
  using assms by (simp add: promote_def ids_distinct_def Let_def)

section \<open>Reporting of forget by id\<close>

text \<open>
  C2. The branch of \<open>forget\<close> that takes an id answers \<open>forgotten: true\<close> whatever the
  update did: here no memory has the id \<open>missing\<close>, no row is marked, and the response
  still says \<open>true\<close>. The branch that takes a content reports \<open>changes > 0\<close>.
\<close>

theorem forget_by_id_reports_true:
  "forget example_db \<lparr>fg_containerTag = ''work'', fg_id = Some ''missing'', fg_content = None\<rparr> 9 =
     (example_db, Json \<lparr>fr_id = ''missing'', forgotten = True\<rparr>)
   \<and> forget example_db \<lparr>fg_containerTag = ''work'', fg_id = None, fg_content = Some ''missing''\<rparr> 9 =
     (example_db, Json \<lparr>fr_id = ''content-match'', forgotten = False\<rparr>)"
  by (simp add: forget_def js_truthy_def update_forget_by_id_def update_forget_by_content_def
        matches_content_def example_db_def memory_a_def memory_b_def memory_c_def)

section \<open>Bulk delete\<close>

text \<open>
  C3, as the claim states it, fails: an empty array passes the check \<open>!ids ||
  !Array.isArray(ids)\<close>, and the handler answers 200 with \<open>deleted: 0\<close>.
\<close>

theorem deleteBulk_empty_counterexample:
  "\<not> is_validation_error (snd (deleteBulk example_db (IdsArray [])))"
  by (simp add: deleteBulk_def is_validation_error_def)

text \<open>
  C3, amended. When \<open>ids\<close> is missing or is not an array the bulk delete answers 400 with
  the message \<open>ids array is required\<close> and deletes no row. An empty array is accepted: the
  answer is \<open>deleted: 0\<close> and no row is deleted.
\<close>

theorem deleteBulk_validation:
  "(\<not> isArray ids \<longrightarrow>
      deleteBulk d ids = (d, Error 400 ''ids array is required'')
      \<and> is_validation_error (snd (deleteBulk d ids)))
   \<and> deleteBulk d (IdsArray []) = (d, Json \<lparr>deleted = 0\<rparr>)"
  by (cases ids) (simp_all add: deleteBulk_def is_validation_error_def)

theorem deleteBulk_validation_witness:
  "\<not> isArray IdsUndefined
   \<and> deleteBulk example_db IdsUndefined = (example_db, Error 400 ''ids array is required'')
   \<and> is_validation_error (snd (deleteBulk example_db IdsUndefined))
   \<and> \<not> isArray (IdsString ''a'')
   \<and> deleteBulk example_db (IdsString ''a'') = (example_db, Error 400 ''ids array is required'')
   \<and> deleteBulk example_db (IdsArray []) = (example_db, Json \<lparr>deleted = 0\<rparr>)"
  using deleteBulk_validation [of IdsUndefined example_db]
    deleteBulk_validation [of "IdsString ''a''" example_db]
  by (simp add: is_validation_error_def)

section \<open>Promotion\<close>

lemma promote_response:
  "snd (promote d tag fact_text now) =
     Json \<lparr>promoted = (\<exists>f \<in> set (profile_facts d). matches_fact tag fact_text f)\<rparr>"
  by (auto simp: promote_def Let_def filter_empty_conv)

lemma promote_facts:
  "profile_facts (fst (promote d tag fact_text now)) =
     map (\<lambda>f. if matches_fact tag fact_text f
               then f\<lparr>f_fact_type := ''static'', f_updated_at := now\<rparr> else f)
       (profile_facts d)"
  by (simp add: promote_def Let_def)

lemma promote_keeps_matches:
  "(\<exists>f \<in> set (profile_facts (fst (promote d tag fact_text now))). matches_fact tag fact_text f)
     = (\<exists>f \<in> set (profile_facts d). matches_fact tag fact_text f)"
proof -
  have "matches_fact tag fact_text
          (if matches_fact tag fact_text f
           then f\<lparr>f_fact_type := ''static'', f_updated_at := now\<rparr> else f)
        = matches_fact tag fact_text f" for f
    by (simp add: matches_fact_def)
  then show ?thesis
    by (simp only: promote_facts set_map bex_simps)
qed

lemma fact_tea_matches:
  "\<exists>f \<in> set (profile_facts example_db).
     matches_fact ''work'' ''I always drink green tea in the morning'' f"
  by (simp add: example_db_def fact_tea_def matches_fact_def)

text \<open>
  C1, as the claim states it, fails: the update selects the rows by container and text
  only, so the second call selects the row the first one made static, and answers
  \<open>promoted: true\<close> again.
\<close>

theorem promote_twice_counterexample:
  "\<not> (snd (promote example_db ''work'' ''I always drink green tea in the morning'' 5) =
         Json \<lparr>promoted = True\<rparr>
       \<and> snd (promote
                (fst (promote example_db ''work'' ''I always drink green tea in the morning'' 5))
                ''work'' ''I always drink green tea in the morning'' 6) =
         Json \<lparr>promoted = False\<rparr>)"
  by (simp add: promote_response promote_keeps_matches fact_tea_matches)

text \<open>
  C1, amended. Two calls of \<open>promote(tag, fact)\<close> in succession give the same answer:
  \<open>true\<close> both times when some row has that container and text, of whichever type, and
  \<open>false\<close> both times when none has. After the first call every such row is static, and
  the second call changes the type of no row.
\<close>

theorem promote_twice:
  "snd (promote d tag fact_text now1) =
     Json \<lparr>promoted = (\<exists>f \<in> set (profile_facts d). matches_fact tag fact_text f)\<rparr>
   \<and> snd (promote (fst (promote d tag fact_text now1)) tag fact_text now2) =
       snd (promote d tag fact_text now1)
   \<and> (\<forall>f \<in> set (profile_facts (fst (promote d tag fact_text now1))).
         matches_fact tag fact_text f \<longrightarrow> f_fact_type f = ''static'')
   \<and> map f_fact_type
        (profile_facts (fst (promote (fst (promote d tag fact_text now1)) tag fact_text now2))) =
      map f_fact_type (profile_facts (fst (promote d tag fact_text now1)))"
proof (intro conjI)
  show "snd (promote d tag fact_text now1) =
     Json \<lparr>promoted = (\<exists>f \<in> set (profile_facts d). matches_fact tag fact_text f)\<rparr>"
    by (rule promote_response)
  show "snd (promote (fst (promote d tag fact_text now1)) tag fact_text now2) =
       snd (promote d tag fact_text now1)"
    by (simp only: promote_response promote_keeps_matches)
  show "\<forall>f \<in> set (profile_facts (fst (promote d tag fact_text now1))).
         matches_fact tag fact_text f \<longrightarrow> f_fact_type f = ''static''"
  proof (intro ballI impI)
    fix f
    assume mem: "f \<in> set (profile_facts (fst (promote d tag fact_text now1)))"
      and hit: "matches_fact tag fact_text f"
    from mem have "f \<in> (\<lambda>f. if matches_fact tag fact_text f
                         then f\<lparr>f_fact_type := ''static'', f_updated_at := now1\<rparr> else f)
                    ` set (profile_facts d)"
      by (simp only: promote_facts set_map)
    then obtain f0 where
      f: "f = (if matches_fact tag fact_text f0
               then f0\<lparr>f_fact_type := ''static'', f_updated_at := now1\<rparr> else f0)"
      by (rule imageE)
    show "f_fact_type f = ''static''"
    proof (cases "matches_fact tag fact_text f0")
      case True
      with f show ?thesis by simp
    next
      case False
      with f hit show ?thesis by simp
    qed
  qed
  have same: "f_fact_type
          (if matches_fact tag fact_text
                (if matches_fact tag fact_text f
                 then f\<lparr>f_fact_type := ''static'', f_updated_at := now1\<rparr> else f)
           then (if matches_fact tag fact_text f
                 then f\<lparr>f_fact_type := ''static'', f_updated_at := now1\<rparr> else f)
                  \<lparr>f_fact_type := ''static'', f_updated_at := now2\<rparr>
           else (if matches_fact tag fact_text f
                 then f\<lparr>f_fact_type := ''static'', f_updated_at := now1\<rparr> else f))
        = f_fact_type
            (if matches_fact tag fact_text f
             then f\<lparr>f_fact_type := ''static'', f_updated_at := now1\<rparr> else f)" for f
  proof (cases "matches_fact tag fact_text f")
    case True
    then have "matches_fact tag fact_text (f\<lparr>f_fact_type := ''static'', f_updated_at := now1\<rparr>)"
      by (simp add: matches_fact_def)
    with True show ?thesis by simp
  next
    case False
    then show ?thesis by simp
  qed
  show "map f_fact_type
        (profile_facts (fst (promote (fst (promote d tag fact_text now1)) tag fact_text now2))) =
      map f_fact_type (profile_facts (fst (promote d tag fact_text now1)))"
    by (simp only: promote_facts map_map comp_def same)
qed

theorem promote_twice_witness:
  "snd (promote example_db ''work'' ''I always drink green tea in the morning'' 5) =
     Json \<lparr>promoted = True\<rparr>
   \<and> snd (promote
            (fst (promote example_db ''work'' ''I always drink green tea in the morning'' 5))
            ''work'' ''I always drink green tea in the morning'' 6) =
     Json \<lparr>promoted = True\<rparr>"
proof -
  note twice =
    promote_twice [of example_db "''work''" "''I always drink green tea in the morning''" 5 6]
  from twice have first:
    "snd (promote example_db ''work'' ''I always drink green tea in the morning'' 5) =
       Json \<lparr>promoted = (\<exists>f \<in> set (profile_facts example_db).
          matches_fact ''work'' ''I always drink green tea in the morning'' f)\<rparr>"
    by (rule conjunct1)
  from twice have second:
    "snd (promote
            (fst (promote example_db ''work'' ''I always drink green tea in the morning'' 5))
            ''work'' ''I always drink green tea in the morning'' 6) =
     snd (promote example_db ''work'' ''I always drink green tea in the morning'' 5)"
    by (rule conjunct2 [THEN conjunct1])
  from first fact_tea_matches have
    "snd (promote example_db ''work'' ''I always drink green tea in the morning'' 5) =
       Json \<lparr>promoted = True\<rparr>"
    by (simp only: simp_thms)
  with second show ?thesis by (simp only: simp_thms)
qed

end
